theory Spec2Isabelle
  imports Main "HOL-Library.Word"
begin

section \<open>The sendtx-p2p command: data\<close>

text \<open>
  An embedding of \<^verbatim>\<open>src/sendtx-p2p.cpp\<close>. The file is a set of completion handlers
  that share one static flag, a logging set-up and the command's \<^verbatim>\<open>invoke\<close>. The
  handlers run on the worker threads of the network library; here one handler call is one
  step, and a run is a sequence of such steps between the statements of \<^verbatim>\<open>invoke\<close>.

  Two kinds of object are handed on by reference (\<^verbatim>\<open>std::ref\<close>) and outlived by the
  reference: the file streams of \<^verbatim>\<open>bind_logging\<close> and the transaction copy held in a
  channel handler. Both live in a store of objects, and using a reference to an object
  that is no longer there is undefined behaviour, a result of its own.
\<close>

text \<open>\<^verbatim>\<open>size_t\<close>: an unsigned machine integer, 64 bits wide on the LP64 targets.\<close>

type_synonym size_t = "64 word"

text \<open>
  \<^verbatim>\<open>std::error_code\<close>: it converts to \<^verbatim>\<open>true\<close> exactly when it holds an error; only
  \<^verbatim>\<open>message()\<close> of such a code is read.
\<close>

datatype error_code = Success | Failure string

type_synonym transaction = string
type_synonym channel = nat
type_synonym path = string
type_synonym ptime = nat
type_synonym address = nat

datatype log_level = Level_debug | Level_info | Level_warning | Level_error | Level_fatal

text \<open>What is streamed with \<^verbatim>\<open><<\<close> into \<^verbatim>\<open>std::cout\<close>, item by item.\<close>

datatype piece =
    Text string
  | Hash_of transaction
  | Clock ptime

text \<open>
  An object that something else refers to: an \<^verbatim>\<open>std::ofstream\<close> opened on a path, or
  the transaction copied into a handler by \<^verbatim>\<open>std::bind\<close>.
\<close>

datatype object = Stream path | Held_transaction transaction

text \<open>
  The transaction bound into a \<^verbatim>\<open>send_tx\<close> handler: a copy of its own (line 187,
  \<^verbatim>\<open>tx\<close>) or a reference to a transaction elsewhere (line 122, \<^verbatim>\<open>std::ref(tx)\<close>).
\<close>

datatype bound_transaction = Copy transaction | Ref address

text \<open>The calls this file makes into the network library and the C runtime, in order.\<close>

datatype call =
    Set_max_outbound size_t
  | Start
  | Subscribe_channel bound_transaction
  | Fetch_connection_count size_t
  | Send channel transaction
  | Install_signal int
  | Stop

text \<open>
  A completion handler handed to the library with what \<^verbatim>\<open>std::bind\<close> bound into it:
  \<^verbatim>\<open>send_tx\<close> carries the transaction, \<^verbatim>\<open>check_connection_count\<close> the node count.
\<close>

datatype handler =
    Handle_start
  | Send_tx bound_transaction
  | Check_connection_count size_t
  | Handle_send
  | Ignore_stop

text \<open>
  The output function set on a logger: one of the two of this file, bound with
  \<^verbatim>\<open>std::ref\<close> to a stream object.
\<close>

datatype output_function = To_file address | To_cerr_and_file address

text \<open>
  \<open>pending\<close>: the handler objects the library keeps, each at its address. \<open>heap\<close>: the
  objects that exist. \<open>logged\<close>: the messages (level, domain, body) of loggers that have
  no output function of this file, left to the library's default.
\<close>

record state =
  stopped :: bool
  trace :: "call list"
  pending :: "(address \<times> handler) list"
  heap :: "address \<Rightarrow> object option"
  next_object :: address
  signals :: "int list"
  logged :: "(log_level \<times> string \<times> string) list"
  cout :: "piece list list"
  debug_output :: "output_function option"
  info_output :: "output_function option"
  warning_output :: "output_function option"
  error_output :: "output_function option"
  fatal_output :: "output_function option"
  files :: "path \<Rightarrow> string option"
  cerr :: string

text \<open>
  The process as it starts: \<^verbatim>\<open>static bool stopped = false\<close>, nothing called, no
  object made, no output function set.
\<close>

definition initial :: state where
  "initial = \<lparr>stopped = False, trace = [], pending = [], heap = (\<lambda>a. None), next_object = 0,
     signals = [], logged = [], cout = [], debug_output = None, info_output = None,
     warning_output = None, error_output = None, fatal_output = None,
     files = (\<lambda>p. None), cerr = []\<rparr>"

text \<open>
  Undefined behaviour, by what was used: the front of an empty collection, a stream that
  has been destroyed, a transaction that has been destroyed.
\<close>

datatype fault = Empty_front | Dead_stream | Dead_transaction

text \<open>
  The result of a handler or of a sequence of them: the state it leaves, or undefined
  behaviour, with the state in which it was reached.
\<close>

datatype result = Undefined fault state | Defined state

fun reached :: "result \<Rightarrow> state" where
  "reached (Undefined f s) = s"
| "reached (Defined s) = s"

fun is_defined :: "result \<Rightarrow> bool" where
  "is_defined (Undefined f s) = False"
| "is_defined (Defined s) = True"

fun and_then :: "result \<Rightarrow> (state \<Rightarrow> result) \<Rightarrow> result" where
  "and_then (Undefined f s) k = Undefined f s"
| "and_then (Defined s) k = k s"

section \<open>Logging\<close>

definition endl :: string where
  "endl = [CHR 0x0A]"

text \<open>
  \<^verbatim>\<open>output_to_file\<close>, on the contents of the stream it is given. \<^verbatim>\<open>level_repr\<close> is
  the library's; it is a parameter.
\<close>

definition output_to_file ::
  "(log_level \<Rightarrow> string) \<Rightarrow> string \<Rightarrow> log_level \<Rightarrow> string \<Rightarrow> string \<Rightarrow> string" where
  "output_to_file level_repr file level domain body =
     (if body = [] then file
      else
        let file1 = file @ level_repr level;
            file2 = (if domain \<noteq> [] then file1 @ '' ['' @ domain @ '']'' else file1)
        in file2 @ '': '' @ body @ endl)"

text \<open>
  \<^verbatim>\<open>output_cerr_and_file\<close>, on the contents of its stream and of \<^verbatim>\<open>std::cerr\<close>. The
  line is composed in a string stream and written to \<^verbatim>\<open>std::cerr\<close>; the function has
  no statement that writes to \<^verbatim>\<open>file\<close>.
\<close>

definition output_cerr_and_file ::
  "(log_level \<Rightarrow> string) \<Rightarrow> string \<times> string \<Rightarrow> log_level \<Rightarrow> string \<Rightarrow> string \<Rightarrow> string \<times> string" where
  "output_cerr_and_file level_repr streams level domain body =
     (case streams of (file, err) \<Rightarrow>
        if body = [] then (file, err)
        else
          let output1 = level_repr level;
              output2 = (if domain \<noteq> [] then output1 @ '' ['' @ domain @ '']'' else output1);
              output3 = output2 @ '': '' @ body
          in (file, err @ output3 @ endl))"

text \<open>
  \<^verbatim>\<open>std::ofstream file(path)\<close>: a new stream object, its file created or emptied. The end
  of the block that declares it destroys the object.
\<close>

definition open_stream :: "path \<Rightarrow> state \<Rightarrow> state" where
  "open_stream p s =
     s\<lparr>heap := (heap s)(next_object s := Some (Stream p)),
       next_object := next_object s + 1,
       files := (files s)(p := Some [])\<rparr>"

definition destroy :: "address \<Rightarrow> state \<Rightarrow> state" where
  "destroy a s = s\<lparr>heap := (heap s)(a := None)\<rparr>"

text \<open>
  \<^verbatim>\<open>bind_logging\<close>. In each block the stream is a local: it is opened, the output
  functions are bound to it with \<^verbatim>\<open>std::ref\<close>, and the closing brace destroys it while
  the loggers keep the functions.
\<close>

definition bind_logging :: "path \<Rightarrow> path \<Rightarrow> state \<Rightarrow> state" where
  "bind_logging debug error s =
     (let s1 = (if debug \<noteq> [] then
                  let debug_file = next_object s;
                      s' = open_stream debug s;
                      s'' = s'\<lparr>debug_output := Some (To_file debug_file),
                               info_output := Some (To_file debug_file)\<rparr>
                  in destroy debug_file s''
                else s)
      in if error \<noteq> [] then
           let error_file = next_object s1;
               s' = open_stream error s1;
               s'' = s'\<lparr>warning_output := Some (To_file error_file),
                        error_output := Some (To_cerr_and_file error_file),
                        fatal_output := Some (To_cerr_and_file error_file)\<rparr>
           in destroy error_file s''
         else s1)"

fun output_of :: "log_level \<Rightarrow> state \<Rightarrow> output_function option" where
  "output_of Level_debug s = debug_output s"
| "output_of Level_info s = info_output s"
| "output_of Level_warning s = warning_output s"
| "output_of Level_error s = error_output s"
| "output_of Level_fatal s = fatal_output s"

text \<open>
  What the file of a stream holds, and writing it back; a stream that has been destroyed
  has nothing.
\<close>

definition stream_contents :: "address \<Rightarrow> state \<Rightarrow> string" where
  "stream_contents a s =
     (case heap s a of
        Some (Stream p) \<Rightarrow> (case files s p of Some file \<Rightarrow> file | None \<Rightarrow> [])
      | _ \<Rightarrow> [])"

definition put_contents :: "address \<Rightarrow> string \<Rightarrow> state \<Rightarrow> state" where
  "put_contents a file s =
     (case heap s a of
        Some (Stream p) \<Rightarrow> s\<lparr>files := (files s)(p := Some file)\<rparr>
      | _ \<Rightarrow> s)"

text \<open>
  A bound output function called with a level, a domain and a body. \<^verbatim>\<open>output_to_file\<close>
  returns on an empty body and otherwise writes to its stream, which must still exist;
  \<^verbatim>\<open>output_cerr_and_file\<close> has no statement that uses its stream.
\<close>

fun call_output ::
  "(log_level \<Rightarrow> string) \<Rightarrow> output_function \<Rightarrow> log_level \<Rightarrow> string \<Rightarrow> string \<Rightarrow> state \<Rightarrow> result" where
  "call_output level_repr (To_file a) level domain body s =
     (if body = [] then Defined s
      else
        (case heap s a of
           Some (Stream p) \<Rightarrow>
             Defined (put_contents a
               (output_to_file level_repr (stream_contents a s) level domain body) s)
         | _ \<Rightarrow> Undefined Dead_stream s))"
| "call_output level_repr (To_cerr_and_file a) level domain body s =
     (case output_cerr_and_file level_repr (stream_contents a s, cerr s) level domain body of
        (file', err') \<Rightarrow> Defined (put_contents a file' (s\<lparr>cerr := err'\<rparr>)))"

text \<open>
  Modelled from the spec: the library's logger, absent from the sources, hands a finished
  message to the output function set for its severity channel, before the statement after
  the logging one runs; a channel with no output function set here keeps the library's
  default, which is recorded and not modelled further.
\<close>

definition write_log ::
  "(log_level \<Rightarrow> string) \<Rightarrow> log_level \<Rightarrow> string \<Rightarrow> string \<Rightarrow> state \<Rightarrow> result" where
  "write_log level_repr level domain body s =
     (case output_of level s of
        None \<Rightarrow> Defined (s\<lparr>logged := logged s @ [(level, domain, body)]\<rparr>)
      | Some f \<Rightarrow> call_output level_repr f level domain body s)"

text \<open>
  A message streamed into \<^verbatim>\<open>log_debug()\<close>, \<^verbatim>\<open>log_info()\<close> or \<^verbatim>\<open>log_warning()\<close>, which
  are called with no domain.
\<close>

definition log_to :: "(log_level \<Rightarrow> string) \<Rightarrow> log_level \<Rightarrow> string \<Rightarrow> state \<Rightarrow> result" where
  "log_to level_repr level body s = write_log level_repr level [] body s"

text \<open>A number streamed with \<^verbatim>\<open><<\<close>: its decimal digits, with a sign when negative.\<close>

fun decimal :: "nat \<Rightarrow> string" where
  "decimal n =
     (if n < 10 then [''0123456789'' ! n]
      else decimal (n div 10) @ [''0123456789'' ! (n mod 10)])"

declare decimal.simps [simp del]

definition decimal_int :: "int \<Rightarrow> string" where
  "decimal_int i = (if i < 0 then CHR ''-'' # decimal (nat (- i)) else decimal (nat i))"

text \<open>A line streamed into \<^verbatim>\<open>std::cout\<close>, ended by \<^verbatim>\<open>std::endl\<close>.\<close>

definition print_line :: "piece list \<Rightarrow> state \<Rightarrow> state" where
  "print_line body s = s\<lparr>cout := cout s @ [body]\<rparr>"

section \<open>The network library, as this file uses it\<close>

text \<open>
  Modelled from the spec: the operations of the Protocol Session and of a Channel, whose
  code is the library's. Each is asynchronous: the call is recorded and its handler is
  kept, as a new object, until the library calls it, once. A \<^verbatim>\<open>send_tx\<close> handler bound
  to a copy of the transaction holds that copy.
\<close>

definition request :: "call \<Rightarrow> handler \<Rightarrow> state \<Rightarrow> state" where
  "request c h s =
     s\<lparr>trace := trace s @ [c],
       pending := pending s @ [(next_object s, h)],
       heap := (case h of
                  Send_tx (Copy tx) \<Rightarrow> (heap s)(next_object s := Some (Held_transaction tx))
                | _ \<Rightarrow> heap s),
       next_object := next_object s + 1\<rparr>"

definition set_max_outbound :: "size_t \<Rightarrow> state \<Rightarrow> state" where
  "set_max_outbound n s = s\<lparr>trace := trace s @ [Set_max_outbound n]\<rparr>"

definition start :: "handler \<Rightarrow> state \<Rightarrow> state" where
  "start h s = request Start h s"

definition subscribe_channel :: "bound_transaction \<Rightarrow> state \<Rightarrow> state" where
  "subscribe_channel tx s = request (Subscribe_channel tx) (Send_tx tx) s"

definition fetch_connection_count :: "size_t \<Rightarrow> state \<Rightarrow> state" where
  "fetch_connection_count node_count s =
     request (Fetch_connection_count node_count) (Check_connection_count node_count) s"

definition send :: "channel \<Rightarrow> transaction \<Rightarrow> handler \<Rightarrow> state \<Rightarrow> state" where
  "send node tx h s = request (Send node tx) h s"

definition stop :: "handler \<Rightarrow> state \<Rightarrow> state" where
  "stop h s = request Stop h s"

text \<open>\<^verbatim>\<open>signal(sig, signal_handler)\<close> of the C runtime.\<close>

definition install_signal :: "int \<Rightarrow> state \<Rightarrow> state" where
  "install_signal sig s = s\<lparr>trace := trace s @ [Install_signal sig], signals := signals s @ [sig]\<rparr>"

section \<open>The handlers\<close>

text \<open>
  Each handler takes the library's \<^verbatim>\<open>level_repr\<close> for the lines its messages may
  become. A message is handed to its logger before the next statement of the handler.
\<close>

definition raise_flag :: "state \<Rightarrow> result" where
  "raise_flag s = Defined (s\<lparr>stopped := True\<rparr>)"

definition signal_handler :: "(log_level \<Rightarrow> string) \<Rightarrow> int \<Rightarrow> state \<Rightarrow> result" where
  "signal_handler level_repr signal s =
     and_then (log_to level_repr Level_info (''Caught signal: '' @ decimal_int signal) s) raise_flag"

fun handle_start :: "(log_level \<Rightarrow> string) \<Rightarrow> error_code \<Rightarrow> state \<Rightarrow> result" where
  "handle_start level_repr (Failure message) s =
     and_then (log_to level_repr Level_warning (''Start failed: '' @ message) s) raise_flag"
| "handle_start level_repr Success s = log_to level_repr Level_debug ''Started.'' s"

text \<open>An error code used as a condition, as in \<^verbatim>\<open>if (error)\<close>.\<close>

fun is_error :: "error_code \<Rightarrow> bool" where
  "is_error Success = False"
| "is_error (Failure message) = True"

definition check_connection_count ::
  "(log_level \<Rightarrow> string) \<Rightarrow> error_code \<Rightarrow> size_t \<Rightarrow> size_t \<Rightarrow> state \<Rightarrow> result" where
  "check_connection_count level_repr error connection_count node_count s =
     and_then
       (case error of
          Failure message \<Rightarrow> log_to level_repr Level_warning (''Check failed: '' @ message) s
        | Success \<Rightarrow>
            log_to level_repr Level_debug (decimal (unat connection_count) @ '' CONNECTIONS'') s)
       (\<lambda>s1. if is_error error \<or> connection_count \<ge> node_count then raise_flag s1
              else Defined s1)"

text \<open>The lambda \<^verbatim>\<open>handle_send\<close> of \<^verbatim>\<open>send_tx\<close>; \<^verbatim>\<open>now\<close> is the clock read by \<^verbatim>\<open>now()\<close>.\<close>

fun handle_send :: "(log_level \<Rightarrow> string) \<Rightarrow> error_code \<Rightarrow> ptime \<Rightarrow> state \<Rightarrow> result" where
  "handle_send level_repr (Failure message) now s =
     log_to level_repr Level_warning (''Send failed: '' @ message) s"
| "handle_send level_repr Success now s = Defined (print_line [Text ''Sent '', Clock now] s)"

text \<open>
  \<^verbatim>\<open>send_tx\<close>. Its parameter \<^verbatim>\<open>tx\<close> is a reference, here the address of the transaction:
  the transaction is read there for its hash and for the send, and the next handler is
  bound to the same address with \<^verbatim>\<open>std::ref(tx)\<close>.
\<close>

fun send_tx ::
  "(log_level \<Rightarrow> string) \<Rightarrow> error_code \<Rightarrow> channel \<Rightarrow> address \<Rightarrow> state \<Rightarrow> result" where
  "send_tx level_repr (Failure message) node tx s =
     and_then (log_to level_repr Level_warning (''Setup failed: '' @ message) s) raise_flag"
| "send_tx level_repr Success node tx s =
     (case heap s tx of
        Some (Held_transaction t) \<Rightarrow>
          (let s1 = print_line [Text ''Sending '', Hash_of t] s;
               s2 = send node t Handle_send s1
           in Defined (subscribe_channel (Ref tx) s2))
      | _ \<Rightarrow> Undefined Dead_transaction s)"

section \<open>Completions\<close>

text \<open>
  What the library and the C runtime do to the program: a completion of a call made
  earlier, with the arguments the library supplies, or a signal.
\<close>

datatype event =
    Started error_code
  | Channel_ready error_code channel
  | Counted error_code size_t
  | Sent error_code ptime
  | Stop_done error_code
  | Signal int

text \<open>The first kept handler of one kind, taken out of the list, with its address.\<close>

fun take_handler ::
  "(handler \<Rightarrow> 'b option) \<Rightarrow> (address \<times> handler) list \<Rightarrow>
     (address \<times> 'b \<times> (address \<times> handler) list) option" where
  "take_handler f [] = None"
| "take_handler f (h # hs) =
     (case f (snd h) of
        Some b \<Rightarrow> Some (fst h, b, hs)
      | None \<Rightarrow>
          (case take_handler f hs of
             None \<Rightarrow> None
           | Some (a, b, rest) \<Rightarrow> Some (a, b, h # rest)))"

fun for_start :: "handler \<Rightarrow> unit option" where
  "for_start Handle_start = Some ()"
| "for_start _ = None"

fun for_channel :: "handler \<Rightarrow> bound_transaction option" where
  "for_channel (Send_tx tx) = Some tx"
| "for_channel _ = None"

fun for_count :: "handler \<Rightarrow> size_t option" where
  "for_count (Check_connection_count node_count) = Some node_count"
| "for_count _ = None"

fun for_send :: "handler \<Rightarrow> unit option" where
  "for_send Handle_send = Some ()"
| "for_send _ = None"

fun for_stop :: "handler \<Rightarrow> unit option" where
  "for_stop Ignore_stop = Some ()"
| "for_stop _ = None"

text \<open>
  The transaction a \<^verbatim>\<open>send_tx\<close> handler passes on: the copy inside the handler object,
  or what its reference points to.
\<close>

fun transaction_at :: "address \<Rightarrow> bound_transaction \<Rightarrow> address" where
  "transaction_at a (Copy tx) = a"
| "transaction_at a (Ref b) = b"

text \<open>
  Modelled from the spec: the library calls a handler once per registration (a channel
  subscription is one-shot and consumed by the channel it receives): the handler leaves
  the list, is called, and its object is destroyed when the call has returned. A
  completion with no handler kept for it calls nothing of this file. A signal runs
  \<^verbatim>\<open>signal_handler\<close> when it was installed for that signal; the default disposition of
  other signals is not modelled.
\<close>

fun deliver :: "(log_level \<Rightarrow> string) \<Rightarrow> event \<Rightarrow> state \<Rightarrow> result" where
  "deliver level_repr (Started error) s =
     (case take_handler for_start (pending s) of
        None \<Rightarrow> Defined s
      | Some (a, u, rest) \<Rightarrow>
          and_then (handle_start level_repr error (s\<lparr>pending := rest\<rparr>))
            (\<lambda>s1. Defined (destroy a s1)))"
| "deliver level_repr (Channel_ready error node) s =
     (case take_handler for_channel (pending s) of
        None \<Rightarrow> Defined s
      | Some (a, tx, rest) \<Rightarrow>
          and_then (send_tx level_repr error node (transaction_at a tx) (s\<lparr>pending := rest\<rparr>))
            (\<lambda>s1. Defined (destroy a s1)))"
| "deliver level_repr (Counted error connection_count) s =
     (case take_handler for_count (pending s) of
        None \<Rightarrow> Defined s
      | Some (a, node_count, rest) \<Rightarrow>
          and_then
            (check_connection_count level_repr error connection_count node_count
               (s\<lparr>pending := rest\<rparr>))
            (\<lambda>s1. Defined (destroy a s1)))"
| "deliver level_repr (Sent error now) s =
     (case take_handler for_send (pending s) of
        None \<Rightarrow> Defined s
      | Some (a, u, rest) \<Rightarrow>
          and_then (handle_send level_repr error now (s\<lparr>pending := rest\<rparr>))
            (\<lambda>s1. Defined (destroy a s1)))"
| "deliver level_repr (Stop_done error) s =
     (case take_handler for_stop (pending s) of
        None \<Rightarrow> Defined s
      | Some (a, u, rest) \<Rightarrow> Defined (destroy a (s\<lparr>pending := rest\<rparr>)))"
| "deliver level_repr (Signal sig) s =
     (if sig \<in> set (signals s) then signal_handler level_repr sig s else Defined s)"

fun run :: "(log_level \<Rightarrow> string) \<Rightarrow> event list \<Rightarrow> state \<Rightarrow> result" where
  "run level_repr [] s = Defined s"
| "run level_repr (ev # evs) s = and_then (deliver level_repr ev s) (run level_repr evs)"

section \<open>invoke\<close>

text \<open>The signal numbers of \<^verbatim>\<open><csignal>\<close> on POSIX systems.\<close>

definition SIGINT :: int where "SIGINT = 2"
definition SIGABRT :: int where "SIGABRT = 6"
definition SIGTERM :: int where "SIGTERM = 15"

text \<open>The bound parameters of the command, read through its getters.\<close>

record config =
  logging_debug_setting :: path
  logging_error_setting :: path
  transactions_argument :: "transaction list"
  nodes_option :: size_t

text \<open>
  What happens around the main thread: the completions that arrive between the call of
  \<^verbatim>\<open>start\<close> and the call of \<^verbatim>\<open>subscribe_channel\<close>, and those that arrive in each
  cycle of the polling loop.
\<close>

record environment =
  starting :: "event list"
  rounds :: "event list list"

text \<open>Modelled from the spec: the command's result type, declared outside the sources.\<close>

datatype console_result = Console_failure | Console_okay | Console_invalid

text \<open>The lambda \<^verbatim>\<open>work\<close> of \<^verbatim>\<open>invoke\<close>.\<close>

definition work :: "size_t \<Rightarrow> state \<Rightarrow> state" where
  "work node_count s = fetch_connection_count node_count s"

text \<open>
  How far the polling loop has come: still polling when the cycles given are used up and
  the flag is false, undefined behaviour in a handler, or left with the flag true.
\<close>

datatype polled = Polling state | Crashed fault state | Left_loop state

text \<open>
  Modelled from the spec: \<^verbatim>\<open>async_client::poll\<close>, absent from the sources. It re-checks
  the flag on a fixed cadence, runs the action and sleeps; the completions of one cycle
  are one element of the list.
\<close>

fun poll ::
  "(log_level \<Rightarrow> string) \<Rightarrow> (state \<Rightarrow> state) \<Rightarrow> event list list \<Rightarrow> state \<Rightarrow> polled" where
  "poll level_repr action [] s = (if stopped s then Left_loop s else Polling s)"
| "poll level_repr action (r # rs) s =
     (if stopped s then Left_loop s
      else
        (case run level_repr r (action s) of
           Undefined f s' \<Rightarrow> Crashed f s'
         | Defined s' \<Rightarrow> poll level_repr action rs s'))"

text \<open>
  \<^verbatim>\<open>invoke\<close> from \<^verbatim>\<open>bind_logging\<close> to the installation of the signal handlers, for the
  transaction it took from the front of the argument. The client with its four threads
  and the objects the protocol is built from appear only through the calls made on them.
\<close>

definition invoke_begin ::
  "(log_level \<Rightarrow> string) \<Rightarrow> transaction \<Rightarrow> config \<Rightarrow> environment \<Rightarrow> state \<Rightarrow> result" where
  "invoke_begin level_repr tx cfg env s =
     (let s1 = bind_logging (logging_debug_setting cfg) (logging_error_setting cfg) s;
          s2 = set_max_outbound (nodes_option cfg * 6) s1;
          s3 = start Handle_start s2
      in and_then (run level_repr (starting env) s3)
           (\<lambda>s4. let s5 = subscribe_channel (Copy tx) s4;
                      s6 = install_signal SIGABRT s5;
                      s7 = install_signal SIGTERM s6
                  in Defined (install_signal SIGINT s7)))"

text \<open>
  The result of \<^verbatim>\<open>invoke\<close>: undefined behaviour (\<^verbatim>\<open>transactions.front()\<close> on an empty
  collection is the first), a loop still polling, or a return.
\<close>

datatype outcome =
    Undefined_behaviour fault state
  | Still_polling state
  | Returned console_result state


definition invoke :: "(log_level \<Rightarrow> string) \<Rightarrow> config \<Rightarrow> environment \<Rightarrow> state \<Rightarrow> outcome" where
  "invoke level_repr cfg env s =
     (case transactions_argument cfg of
        [] \<Rightarrow> Undefined_behaviour Empty_front s
      | tx # others \<Rightarrow>
          (case invoke_begin level_repr tx cfg env s of
             Undefined f s' \<Rightarrow> Undefined_behaviour f s'
           | Defined s0 \<Rightarrow>
               (case poll level_repr (work (nodes_option cfg)) (rounds env) s0 of
                  Polling s' \<Rightarrow> Still_polling s'
                | Crashed f s' \<Rightarrow> Undefined_behaviour f s'
                | Left_loop s' \<Rightarrow> Returned Console_okay (stop Ignore_stop s'))))"

section \<open>What a run shows\<close>

text \<open>The send attempts of a run, in order, and the channel subscriptions now armed.\<close>

fun send_attempt :: "call \<Rightarrow> (channel \<times> transaction) option" where
  "send_attempt (Send node tx) = Some (node, tx)"
| "send_attempt _ = None"

definition send_attempts :: "state \<Rightarrow> (channel \<times> transaction) list" where
  "send_attempts s = List.map_filter send_attempt (trace s)"

definition subscriptions :: "state \<Rightarrow> bound_transaction list" where
  "subscriptions s = List.map_filter for_channel (map snd (pending s))"


text \<open>
  The state at a check of the polling loop after the given cycles, had every earlier check
  found the flag false.
\<close>

fun cycles ::
  "(log_level \<Rightarrow> string) \<Rightarrow> (state \<Rightarrow> state) \<Rightarrow> event list list \<Rightarrow> state \<Rightarrow> result" where
  "cycles level_repr action [] s = Defined s"
| "cycles level_repr action (r # rs) s =
     and_then (run level_repr r (action s)) (cycles level_repr action rs)"

text \<open>Names for the levels, for the examples.\<close>

fun level_names :: "log_level \<Rightarrow> string" where
  "level_names Level_debug = ''DEBUG''"
| "level_names Level_info = ''INFO''"
| "level_names Level_warning = ''WARNING''"
| "level_names Level_error = ''ERROR''"
| "level_names Level_fatal = ''FATAL''"

section \<open>What logging leaves alone\<close>

lemma put_contents_keeps:
  "stopped (put_contents a c s) = stopped s"
  "trace (put_contents a c s) = trace s"
  "pending (put_contents a c s) = pending s"
  "heap (put_contents a c s) = heap s"
  "next_object (put_contents a c s) = next_object s"
  "signals (put_contents a c s) = signals s"
  "cout (put_contents a c s) = cout s"
  "logged (put_contents a c s) = logged s"
  "cerr (put_contents a c s) = cerr s"
  "debug_output (put_contents a c s) = debug_output s"
  "info_output (put_contents a c s) = info_output s"
  "warning_output (put_contents a c s) = warning_output s"
  "error_output (put_contents a c s) = error_output s"
  "fatal_output (put_contents a c s) = fatal_output s"
  by (simp_all add: put_contents_def split: option.split object.split)

lemma call_output_keeps:
  "stopped (reached (call_output lr f level domain body s)) = stopped s"
  "trace (reached (call_output lr f level domain body s)) = trace s"
  "pending (reached (call_output lr f level domain body s)) = pending s"
  "heap (reached (call_output lr f level domain body s)) = heap s"
  "next_object (reached (call_output lr f level domain body s)) = next_object s"
  "signals (reached (call_output lr f level domain body s)) = signals s"
  "cout (reached (call_output lr f level domain body s)) = cout s"
  "logged (reached (call_output lr f level domain body s)) = logged s"
  "debug_output (reached (call_output lr f level domain body s)) = debug_output s"
  "info_output (reached (call_output lr f level domain body s)) = info_output s"
  "warning_output (reached (call_output lr f level domain body s)) = warning_output s"
  "error_output (reached (call_output lr f level domain body s)) = error_output s"
  "fatal_output (reached (call_output lr f level domain body s)) = fatal_output s"
  by (cases f, simp_all add: put_contents_keeps split: option.split object.split prod.split)+

lemma log_to_keeps:
  "stopped (reached (log_to lr level body s)) = stopped s"
  "trace (reached (log_to lr level body s)) = trace s"
  "pending (reached (log_to lr level body s)) = pending s"
  "heap (reached (log_to lr level body s)) = heap s"
  "next_object (reached (log_to lr level body s)) = next_object s"
  "signals (reached (log_to lr level body s)) = signals s"
  "cout (reached (log_to lr level body s)) = cout s"
  "debug_output (reached (log_to lr level body s)) = debug_output s"
  "info_output (reached (log_to lr level body s)) = info_output s"
  "warning_output (reached (log_to lr level body s)) = warning_output s"
  "error_output (reached (log_to lr level body s)) = error_output s"
  "fatal_output (reached (log_to lr level body s)) = fatal_output s"
  by (simp_all add: log_to_def write_log_def call_output_keeps split: option.split)

lemma log_to_unrouted:
  "output_of level s = None \<Longrightarrow>
     log_to lr level body s = Defined (s\<lparr>logged := logged s @ [(level, [], body)]\<rparr>)"
  by (simp add: log_to_def write_log_def)

lemma log_to_dead_stream:
  "output_of level s = Some (To_file a) \<Longrightarrow> heap s a = None \<Longrightarrow> body \<noteq> [] \<Longrightarrow>
     log_to lr level body s = Undefined Dead_stream s"
  by (simp add: log_to_def write_log_def)


lemma output_of_log_to: "output_of l (reached (log_to lr level body s)) = output_of l s"
  by (cases l) (simp_all add: log_to_keeps)

lemma raise_flag_keeps:
  "trace (reached (and_then r raise_flag)) = trace (reached r)"
  "pending (reached (and_then r raise_flag)) = pending (reached r)"
  "heap (reached (and_then r raise_flag)) = heap (reached r)"
  "next_object (reached (and_then r raise_flag)) = next_object (reached r)"
  "signals (reached (and_then r raise_flag)) = signals (reached r)"
  "cout (reached (and_then r raise_flag)) = cout (reached r)"
  "debug_output (reached (and_then r raise_flag)) = debug_output (reached r)"
  "info_output (reached (and_then r raise_flag)) = info_output (reached r)"
  "warning_output (reached (and_then r raise_flag)) = warning_output (reached r)"
  "is_defined (and_then r raise_flag) = is_defined r"
  "stopped (reached (and_then r raise_flag)) = (stopped (reached r) \<or> is_defined r)"
  by (cases r, simp_all add: raise_flag_def)+

lemma destroy_keeps:
  "stopped (destroy a s) = stopped s"
  "trace (destroy a s) = trace s"
  "pending (destroy a s) = pending s"
  "next_object (destroy a s) = next_object s"
  "signals (destroy a s) = signals s"
  "cout (destroy a s) = cout s"
  "logged (destroy a s) = logged s"
  "debug_output (destroy a s) = debug_output s"
  "info_output (destroy a s) = info_output s"
  "warning_output (destroy a s) = warning_output s"
  by (simp_all add: destroy_def)

lemma and_then_destroy:
  "stopped (reached (and_then r (\<lambda>s1. Defined (destroy a s1)))) = stopped (reached r)"
  "trace (reached (and_then r (\<lambda>s1. Defined (destroy a s1)))) = trace (reached r)"
  "pending (reached (and_then r (\<lambda>s1. Defined (destroy a s1)))) = pending (reached r)"
  "next_object (reached (and_then r (\<lambda>s1. Defined (destroy a s1)))) = next_object (reached r)"
  "signals (reached (and_then r (\<lambda>s1. Defined (destroy a s1)))) = signals (reached r)"
  "debug_output (reached (and_then r (\<lambda>s1. Defined (destroy a s1)))) = debug_output (reached r)"
  "info_output (reached (and_then r (\<lambda>s1. Defined (destroy a s1)))) = info_output (reached r)"
  "warning_output (reached (and_then r (\<lambda>s1. Defined (destroy a s1)))) = warning_output (reached r)"
  "is_defined (and_then r (\<lambda>s1. Defined (destroy a s1))) = is_defined r"
  by (cases r, simp_all add: destroy_keeps)+

section \<open>The handlers and the flag\<close>


lemma signal_handler_keeps:
  "trace (reached (signal_handler lr sig s)) = trace s"
  "pending (reached (signal_handler lr sig s)) = pending s"
  "signals (reached (signal_handler lr sig s)) = signals s"
  "debug_output (reached (signal_handler lr sig s)) = debug_output s"
  "info_output (reached (signal_handler lr sig s)) = info_output s"
  "warning_output (reached (signal_handler lr sig s)) = warning_output s"
  by (simp_all add: signal_handler_def raise_flag_keeps log_to_keeps)


lemma handle_start_keeps:
  "trace (reached (handle_start lr error s)) = trace s"
  "pending (reached (handle_start lr error s)) = pending s"
  "signals (reached (handle_start lr error s)) = signals s"
  "debug_output (reached (handle_start lr error s)) = debug_output s"
  "info_output (reached (handle_start lr error s)) = info_output s"
  "warning_output (reached (handle_start lr error s)) = warning_output s"
  by (cases error, simp_all add: raise_flag_keeps log_to_keeps)+


lemma check_as_and_then:
  "check_connection_count lr error c n s =
     and_then
       (log_to lr (case error of Failure m \<Rightarrow> Level_warning | Success \<Rightarrow> Level_debug)
          (case error of Failure m \<Rightarrow> ''Check failed: '' @ m
           | Success \<Rightarrow> decimal (unat c) @ '' CONNECTIONS'') s)
       (\<lambda>s1. if error \<noteq> Success \<or> n \<le> c then raise_flag s1 else Defined s1)"
  by (cases error) (simp_all add: check_connection_count_def)

lemma check_stopped:
  "stopped (reached (check_connection_count lr error c n s)) =
     (stopped s \<or>
      ((error \<noteq> Success \<or> n \<le> c) \<and> is_defined (check_connection_count lr error c n s)))"
proof -
  let ?m = "log_to lr (case error of Failure m \<Rightarrow> Level_warning | Success \<Rightarrow> Level_debug)
          (case error of Failure m \<Rightarrow> ''Check failed: '' @ m
           | Success \<Rightarrow> decimal (unat c) @ '' CONNECTIONS'') s"
  have k: "stopped (reached ?m) = stopped s" by (simp add: log_to_keeps)
  show ?thesis unfolding check_as_and_then using k
    by (cases ?m) (simp_all add: raise_flag_def)
qed

lemma check_keeps:
  "trace (reached (check_connection_count lr error c n s)) = trace s"
  "pending (reached (check_connection_count lr error c n s)) = pending s"
  "signals (reached (check_connection_count lr error c n s)) = signals s"
  "debug_output (reached (check_connection_count lr error c n s)) = debug_output s"
  "info_output (reached (check_connection_count lr error c n s)) = info_output s"
  "warning_output (reached (check_connection_count lr error c n s)) = warning_output s"
proof -
  let ?m = "log_to lr (case error of Failure m \<Rightarrow> Level_warning | Success \<Rightarrow> Level_debug)
          (case error of Failure m \<Rightarrow> ''Check failed: '' @ m
           | Success \<Rightarrow> decimal (unat c) @ '' CONNECTIONS'') s"
  have k: "trace (reached ?m) = trace s" "pending (reached ?m) = pending s"
    "signals (reached ?m) = signals s" "debug_output (reached ?m) = debug_output s"
    "info_output (reached ?m) = info_output s" "warning_output (reached ?m) = warning_output s"
    by (simp_all add: log_to_keeps)
  show "trace (reached (check_connection_count lr error c n s)) = trace s"
    unfolding check_as_and_then using k(1) by (cases ?m) (simp_all add: raise_flag_def)
  show "pending (reached (check_connection_count lr error c n s)) = pending s"
    unfolding check_as_and_then using k(2) by (cases ?m) (simp_all add: raise_flag_def)
  show "signals (reached (check_connection_count lr error c n s)) = signals s"
    unfolding check_as_and_then using k(3) by (cases ?m) (simp_all add: raise_flag_def)
  show "debug_output (reached (check_connection_count lr error c n s)) = debug_output s"
    unfolding check_as_and_then using k(4) by (cases ?m) (simp_all add: raise_flag_def)
  show "info_output (reached (check_connection_count lr error c n s)) = info_output s"
    unfolding check_as_and_then using k(5) by (cases ?m) (simp_all add: raise_flag_def)
  show "warning_output (reached (check_connection_count lr error c n s)) = warning_output s"
    unfolding check_as_and_then using k(6) by (cases ?m) (simp_all add: raise_flag_def)
qed


lemma handle_send_keeps:
  "trace (reached (handle_send lr error now s)) = trace s"
  "pending (reached (handle_send lr error now s)) = pending s"
  "signals (reached (handle_send lr error now s)) = signals s"
  "heap (reached (handle_send lr error now s)) = heap s"
  "debug_output (reached (handle_send lr error now s)) = debug_output s"
  "info_output (reached (handle_send lr error now s)) = info_output s"
  "warning_output (reached (handle_send lr error now s)) = warning_output s"
  by (cases error, simp_all add: log_to_keeps print_line_def)+

lemma send_tx_live:
  assumes "heap s tx = Some (Held_transaction t)"
  shows "send_tx lr Success node tx s =
           Defined (subscribe_channel (Ref tx) (send node t Handle_send
             (print_line [Text ''Sending '', Hash_of t] s)))"
    and "trace (reached (send_tx lr Success node tx s)) =
           trace s @ [Send node t, Subscribe_channel (Ref tx)]"
    and "map snd (pending (reached (send_tx lr Success node tx s))) =
           map snd (pending s) @ [Handle_send, Send_tx (Ref tx)]"
  using assms
  by (simp_all add: subscribe_channel_def send_def request_def print_line_def Let_def)

lemma send_tx_dead:
  "heap s tx = None \<Longrightarrow> send_tx lr Success node tx s = Undefined Dead_transaction s"
  by simp

lemma send_tx_Success_cases:
  "send_tx lr Success node tx s = Undefined Dead_transaction s
   \<or> (\<exists>t. send_tx lr Success node tx s =
           Defined (subscribe_channel (Ref tx) (send node t Handle_send
             (print_line [Text ''Sending '', Hash_of t] s))))"
  by (auto simp: Let_def split: option.split object.split)

lemma sent_state_keeps:
  "stopped (subscribe_channel b (send node t h (print_line x s))) = stopped s"
  "signals (subscribe_channel b (send node t h (print_line x s))) = signals s"
  "debug_output (subscribe_channel b (send node t h (print_line x s))) = debug_output s"
  "info_output (subscribe_channel b (send node t h (print_line x s))) = info_output s"
  "warning_output (subscribe_channel b (send node t h (print_line x s))) = warning_output s"
  "trace (subscribe_channel b (send node t h (print_line x s))) =
     trace s @ [Send node t, Subscribe_channel b]"
  by (simp_all add: subscribe_channel_def send_def request_def print_line_def)


lemma send_tx_keeps:
  "signals (reached (send_tx lr error node tx s)) = signals s"
  "debug_output (reached (send_tx lr error node tx s)) = debug_output s"
  "info_output (reached (send_tx lr error node tx s)) = info_output s"
  "warning_output (reached (send_tx lr error node tx s)) = warning_output s"
proof -
  show "signals (reached (send_tx lr error node tx s)) = signals s"
  proof (cases error)
    case Success
    from send_tx_Success_cases [of lr node tx s] show ?thesis
      unfolding Success by (auto simp: sent_state_keeps simp del: send_tx.simps)
  qed (simp add: raise_flag_keeps log_to_keeps)
  show "debug_output (reached (send_tx lr error node tx s)) = debug_output s"
  proof (cases error)
    case Success
    from send_tx_Success_cases [of lr node tx s] show ?thesis
      unfolding Success by (auto simp: sent_state_keeps simp del: send_tx.simps)
  qed (simp add: raise_flag_keeps log_to_keeps)
  show "info_output (reached (send_tx lr error node tx s)) = info_output s"
  proof (cases error)
    case Success
    from send_tx_Success_cases [of lr node tx s] show ?thesis
      unfolding Success by (auto simp: sent_state_keeps simp del: send_tx.simps)
  qed (simp add: raise_flag_keeps log_to_keeps)
  show "warning_output (reached (send_tx lr error node tx s)) = warning_output s"
  proof (cases error)
    case Success
    from send_tx_Success_cases [of lr node tx s] show ?thesis
      unfolding Success by (auto simp: sent_state_keeps simp del: send_tx.simps)
  qed (simp add: raise_flag_keeps log_to_keeps)
qed

lemma send_tx_trace_grows:
  "\<exists>ext. trace (reached (send_tx lr error node tx s)) = trace s @ ext"
proof (cases error)
  case Success
  from send_tx_Success_cases [of lr node tx s] show ?thesis
    unfolding Success by (auto simp: sent_state_keeps simp del: send_tx.simps)
qed (simp add: raise_flag_keeps log_to_keeps)

section \<open>Deliveries\<close>

lemma take_handler_None: "(take_handler f hs = None) = (List.map_filter f (map snd hs) = [])"
  by (induction hs) (auto split: option.splits)

lemma take_handler_same:
  "take_handler f hs = Some (a, b, rest) \<Longrightarrow>
     List.map_filter f (map snd hs) = b # List.map_filter f (map snd rest)"
  by (induction hs arbitrary: rest) (auto split: option.splits)

lemma take_handler_other:
  "take_handler f hs = Some (a, b, rest) \<Longrightarrow> (\<And>h. f h \<noteq> None \<Longrightarrow> g h = None) \<Longrightarrow>
     List.map_filter g (map snd rest) = List.map_filter g (map snd hs)"
proof (induction hs arbitrary: rest)
  case Nil
  then show ?case by simp
next
  case (Cons h hs)
  show ?case
  proof (cases "f (snd h)")
    case None
    with Cons.prems(1) obtain r where r: "take_handler f hs = Some (a, b, r)" "rest = h # r"
      by (auto split: option.splits)
    from Cons.IH [OF r(1) Cons.prems(2)] r(2) show ?thesis
      by (simp split: option.splits)
  next
    case (Some c)
    with Cons.prems(1) have "rest = hs" by simp
    moreover from Some Cons.prems(2) have "g (snd h) = None" by simp
    ultimately show ?thesis by simp
  qed
qed



lemma reached_and_then:
  "reached (and_then r k) = (case r of Undefined f s \<Rightarrow> s | Defined s \<Rightarrow> reached (k s))"
  by (cases r) simp_all


lemma deliver_trace_grows: "\<exists>ext. trace (reached (deliver lr ev s)) = trace s @ ext"
proof (cases ev)
  case (Channel_ready e node)
  show ?thesis
  proof (cases "take_handler for_channel (pending s)")
    case None
    with Channel_ready show ?thesis by simp
  next
    case (Some p)
    obtain a tx rest where p: "p = (a, tx, rest)" by (cases p)
    from send_tx_trace_grows [of lr e node "transaction_at a tx" "s\<lparr>pending := rest\<rparr>"]
      Channel_ready Some p
    show ?thesis by (simp add: and_then_destroy del: send_tx.simps)
  qed
qed (auto simp: and_then_destroy handle_start_keeps check_keeps handle_send_keeps
      signal_handler_keeps destroy_keeps
      simp del: handle_start.simps handle_send.simps split: option.splits)

lemma run_trace_grows: "\<exists>ext. trace (reached (run lr evs s)) = trace s @ ext"
proof (induction evs arbitrary: s)
  case Nil
  then show ?case by simp
next
  case (Cons ev evs)
  from deliver_trace_grows [of lr ev s] obtain e1
    where e1: "trace (reached (deliver lr ev s)) = trace s @ e1" ..
  show ?case
  proof (cases "deliver lr ev s")
    case (Undefined f s')
    with e1 show ?thesis by (simp del: deliver.simps)
  next
    case (Defined s')
    from Cons.IH [of s'] obtain e2 where "trace (reached (run lr evs s')) = trace s' @ e2" ..
    with e1 Defined show ?thesis by (simp del: deliver.simps)
  qed
qed

section \<open>The polling loop\<close>



lemma cycles_append:
  "cycles lr action (rs @ rs') s = and_then (cycles lr action rs s) (cycles lr action rs')"
proof (induction rs arbitrary: s)
  case Nil
  then show ?case by simp
next
  case (Cons r rs)
  then show ?case by (cases "run lr r (action s)") simp_all
qed


lemma poll_Left_stopped: "poll lr action rs s = Left_loop s' \<Longrightarrow> stopped s'"
proof (induction rs arbitrary: s)
  case Nil
  then show ?case by (simp split: if_splits)
next
  case (Cons r rs)
  then show ?case
    by (cases "run lr r (action s)") (auto split: if_splits)
qed

text \<open>A flag that is true at a check, in a run defined up to there, ends the loop.\<close>

lemma poll_returns:
  "cycles lr (work n) rs s = Defined s1 \<Longrightarrow> stopped s1 \<Longrightarrow>
     \<exists>s'. poll lr (work n) (rs @ rs') s = Left_loop s'"
proof (induction rs arbitrary: s)
  case Nil
  then show ?case by (cases rs') simp_all
next
  case (Cons r rs)
  show ?case
  proof (cases "stopped s")
    case True
    then show ?thesis by simp
  next
    case False
    from Cons.prems(1) obtain s' where r: "run lr r (work n s) = Defined s'"
      and c: "cycles lr (work n) rs s' = Defined s1"
      by (cases "run lr r (work n s)") simp_all
    from Cons.IH [OF c Cons.prems(2)] r False show ?thesis by simp
  qed
qed


section \<open>The beginning of invoke\<close>

lemma bind_logging_keeps:
  "stopped (bind_logging debug error s) = stopped s"
  "trace (bind_logging debug error s) = trace s"
  "pending (bind_logging debug error s) = pending s"
  "signals (bind_logging debug error s) = signals s"
  "logged (bind_logging debug error s) = logged s"
  by (simp_all add: bind_logging_def open_stream_def destroy_def Let_def)


text \<open>Every stream that \<^verbatim>\<open>bind_logging\<close> binds is destroyed when it returns.\<close>

lemma bind_logging_streams_dead:
  "debug \<noteq> [] \<Longrightarrow> heap (bind_logging debug error s) (next_object s) = None"
  "error \<noteq> [] \<Longrightarrow>
     heap (bind_logging debug error s) (if debug = [] then next_object s else next_object s + 1)
       = None"
  by (simp_all add: bind_logging_def open_stream_def destroy_def Let_def)







lemma armed_state:
  "trace (install_signal SIGINT (install_signal SIGTERM (install_signal SIGABRT
      (subscribe_channel (Copy tx) s)))) =
     trace s @ [Subscribe_channel (Copy tx), Install_signal SIGABRT, Install_signal SIGTERM,
       Install_signal SIGINT]"
  "stopped (install_signal SIGINT (install_signal SIGTERM (install_signal SIGABRT
      (subscribe_channel (Copy tx) s)))) = stopped s"
  "map snd (pending (install_signal SIGINT (install_signal SIGTERM (install_signal SIGABRT
      (subscribe_channel (Copy tx) s))))) = map snd (pending s) @ [Send_tx (Copy tx)]"
  by (simp_all add: install_signal_def subscribe_channel_def request_def)



text \<open>From any state, the first two calls are the cap and the start, defined or not.\<close>

lemma invoke_begin_first_calls:
  "\<exists>ext. trace (reached (invoke_begin lr tx cfg env s)) =
     trace s @ [Set_max_outbound (nodes_option cfg * 6), Start] @ ext"
proof -
  let ?s3 = "start Handle_start (set_max_outbound (nodes_option cfg * 6)
       (bind_logging (logging_debug_setting cfg) (logging_error_setting cfg) s))"
  have a: "trace ?s3 = trace s @ [Set_max_outbound (nodes_option cfg * 6), Start]"
    by (simp add: start_def request_def set_max_outbound_def bind_logging_keeps)
  from run_trace_grows [of lr "starting env" ?s3] obtain ext
    where e: "trace (reached (run lr (starting env) ?s3)) = trace ?s3 @ ext" ..
  show ?thesis
  proof (cases "run lr (starting env) ?s3")
    case (Undefined f s')
    with a e show ?thesis by (simp add: invoke_begin_def Let_def)
  next
    case (Defined s4)
    with a e show ?thesis by (simp add: invoke_begin_def Let_def armed_state)
  qed
qed


section \<open>Evaluation\<close>

lemmas model_defs = invoke_def invoke_begin_def bind_logging_def open_stream_def destroy_def
  set_max_outbound_def start_def subscribe_channel_def request_def install_signal_def work_def
  fetch_connection_count_def stop_def send_def log_to_def write_log_def print_line_def
  signal_handler_def check_connection_count_def raise_flag_def put_contents_def
  stream_contents_def initial_def SIGINT_def SIGABRT_def SIGTERM_def Let_def

section \<open>The log line\<close>

text \<open>
  Claim C9. For every level, domain and body: an empty body writes nothing; otherwise the
  line written is the level's representation, then \<^verbatim>\<open> [domain]\<close> exactly when the domain
  is not empty, then \<^verbatim>\<open>: \<close> and the body, and the line is ended. \<^verbatim>\<open>output_to_file\<close>
  writes it to its stream, \<^verbatim>\<open>output_cerr_and_file\<close> to \<^verbatim>\<open>std::cerr\<close>, leaving the
  contents of its stream as they were.
\<close>

theorem output_line_format:
  "output_to_file level_repr file level domain body =
     (if body = [] then file
      else file @ level_repr level @ (if domain = [] then [] else '' ['' @ domain @ '']'')
             @ '': '' @ body @ endl)
   \<and> snd (output_cerr_and_file level_repr (file, err) level domain body) =
     (if body = [] then err
      else err @ level_repr level @ (if domain = [] then [] else '' ['' @ domain @ '']'')
             @ '': '' @ body @ endl)
   \<and> fst (output_cerr_and_file level_repr (file, err) level domain body) = file"
  by (simp add: output_to_file_def output_cerr_and_file_def Let_def)

section \<open>The cap\<close>

text \<open>
  Claim C6, amended. For every target node count T the first two calls of \<^verbatim>\<open>invoke\<close>
  are \<^verbatim>\<open>set_max_outbound\<close> with T * 6 in \<^verbatim>\<open>size_t\<close> arithmetic and then \<^verbatim>\<open>start\<close>:
  the cap is the product modulo \<open>2 ^ 64\<close>, and it is the exact product whenever that is
  below \<open>2 ^ 64\<close>.
\<close>

theorem max_outbound_wraps:
  "take 2 (drop (length (trace s)) (trace (reached (invoke_begin level_repr tx cfg env s))))
     = [Set_max_outbound (nodes_option cfg * 6), Start]
   \<and> unat (nodes_option cfg * 6) = (unat (nodes_option cfg) * 6) mod 2 ^ 64
   \<and> (unat (nodes_option cfg) * 6 < 2 ^ 64 \<longrightarrow>
        unat (nodes_option cfg * 6) = unat (nodes_option cfg) * 6)"
proof -
  from invoke_begin_first_calls [of level_repr tx cfg env s]
  have a: "take 2 (drop (length (trace s)) (trace (reached (invoke_begin level_repr tx cfg env s))))
     = [Set_max_outbound (nodes_option cfg * 6), Start]" by auto
  have b: "unat (nodes_option cfg * 6) = (unat (nodes_option cfg) * 6) mod 2 ^ 64"
    by (simp add: unat_word_ariths)
  from a b show ?thesis by simp
qed

theorem max_outbound_wraps_witness:
  "take 2 (trace (reached (invoke_begin level_names ''tx''
      \<lparr>logging_debug_setting = [], logging_error_setting = [],
        transactions_argument = [''tx''], nodes_option = 2\<rparr>
      \<lparr>starting = [], rounds = []\<rparr> initial))) = [Set_max_outbound 12, Start]
   \<and> unat (2 * 6 :: size_t) = 12"
  using max_outbound_wraps [of initial level_names "''tx''"
      "\<lparr>logging_debug_setting = [], logging_error_setting = [],
        transactions_argument = [''tx''], nodes_option = 2\<rparr>"
      "\<lparr>starting = [], rounds = []\<rparr>"]
  by (simp add: initial_def)

text \<open>
  Claim C6 as stated fails: for the target \<open>2 ^ 63\<close> the cap that is set is 0, and the
  exact product is not.
\<close>

theorem max_outbound_counterexample:
  "take 2 (trace (reached (invoke_begin level_names ''tx''
      \<lparr>logging_debug_setting = [], logging_error_setting = [],
        transactions_argument = [''tx''], nodes_option = 9223372036854775808\<rparr>
      \<lparr>starting = [], rounds = []\<rparr> initial))) = [Set_max_outbound 0, Start]
   \<and> unat (9223372036854775808 :: size_t) * 6 = 55340232221128654848"
  by (simp add: model_defs)

section \<open>One send for each channel\<close>

text \<open>
  The handler armed by \<^verbatim>\<open>invoke\<close> holds a copy of the transaction. \<^verbatim>\<open>send_tx\<close> binds
  the next handler to that copy by reference, and the copy goes with the handler that held
  it: the first channel is sent to, the second reads a transaction that is gone.
\<close>

lemma rearmed_reference_dangles:
  assumes t: "take_handler for_channel (pending s) = Some (a, Copy t, rest)"
    and r: "List.map_filter for_channel (map snd rest) = []"
    and h: "heap s a = Some (Held_transaction t)"
  shows "\<exists>s1. deliver lr (Channel_ready Success n1) s = Defined s1
           \<and> send_attempts s1 = send_attempts s @ [(n1, t)]
           \<and> subscriptions s1 = [Ref a]
           \<and> deliver lr (Channel_ready Success n2) s1 =
               Undefined Dead_transaction (s1\<lparr>pending := butlast (pending s1)\<rparr>)"
proof -
  let ?s' = "s\<lparr>pending := rest\<rparr>"
  let ?s1 = "destroy a (subscribe_channel (Ref a) (send n1 t Handle_send
             (print_line [Text ''Sending '', Hash_of t] ?s')))"
  from h have h': "heap ?s' a = Some (Held_transaction t)" by simp
  from t send_tx_live(1) [OF h', of lr n1]
  have d: "deliver lr (Channel_ready Success n1) s = Defined ?s1"
    by (simp del: send_tx.simps)
  have p: "pending ?s1 = rest @ [(next_object s, Handle_send), (next_object s + 1, Send_tx (Ref a))]"
    by (simp add: destroy_def subscribe_channel_def send_def request_def print_line_def)
  have tr: "trace ?s1 = trace s @ [Send n1 t, Subscribe_channel (Ref a)]"
    by (simp add: destroy_def subscribe_channel_def send_def request_def print_line_def)
  have hp: "heap ?s1 a = None"
    by (simp add: destroy_def subscribe_channel_def send_def request_def print_line_def)
  from r have tn: "take_handler for_channel rest = None" by (simp add: take_handler_None)
  have th: "take_handler for_channel (pending ?s1)
      = Some (next_object s + 1, Ref a, rest @ [(next_object s, Handle_send)])"
    unfolding p using tn by (induction rest) (auto split: option.splits)
  have sa: "send_attempts ?s1 = send_attempts s @ [(n1, t)]"
    by (simp add: send_attempts_def tr List.map_filter_def)
  have su: "subscriptions ?s1 = [Ref a]"
    using r by (simp add: subscriptions_def p List.map_filter_def)
  have bl: "butlast (pending ?s1) = rest @ [(next_object s, Handle_send)]"
    by (simp add: p butlast_append)
  have "deliver lr (Channel_ready Success n2) ?s1
      = Undefined Dead_transaction (?s1\<lparr>pending := rest @ [(next_object s, Handle_send)]\<rparr>)"
    using th hp by (simp add: send_tx_dead del: send_tx.simps)
  with d sa su bl show ?thesis by simp
qed

text \<open>
  Claim C1, on the code. One channel delivered without error gets its send and the
  subscription is armed again, by reference to the transaction of the handler just
  consumed. With two channels delivered without error there is one send attempt, not two:
  the second call of \<^verbatim>\<open>send_tx\<close> reads the destroyed transaction, which is undefined
  behaviour, and \<^verbatim>\<open>invoke\<close> does not reach \<^verbatim>\<open>stop\<close>.
\<close>

theorem second_channel_reads_destroyed_transaction:
  "(case invoke level_names
        \<lparr>logging_debug_setting = [], logging_error_setting = [],
          transactions_argument = [''tx''], nodes_option = 8\<rparr>
        \<lparr>starting = [], rounds = [[Channel_ready Success 7], [Signal 2]]\<rparr> initial of
      Returned r s \<Rightarrow> send_attempts s = [(7, ''tx'')] \<and> subscriptions s = [Ref 1]
    | _ \<Rightarrow> False)
   \<and> (case invoke level_names
        \<lparr>logging_debug_setting = [], logging_error_setting = [],
          transactions_argument = [''tx''], nodes_option = 8\<rparr>
        \<lparr>starting = [], rounds = [[Channel_ready Success 7, Channel_ready Success 9], [Signal 2]]\<rparr>
        initial of
      Undefined_behaviour f s \<Rightarrow>
        f = Dead_transaction \<and> send_attempts s = [(7, ''tx'')] \<and> heap s 1 = None
        \<and> Stop \<notin> set (trace s)
    | _ \<Rightarrow> False)"
  by (simp add: model_defs send_attempts_def subscriptions_def List.map_filter_def)

section \<open>A failed start\<close>







section \<open>The connection count\<close>

lemma check_unrouted:
  assumes "output_of (case error of Failure m \<Rightarrow> Level_warning | Success \<Rightarrow> Level_debug) s = None"
  shows "is_defined (check_connection_count lr error c n s)"
    and "stopped (reached (check_connection_count lr error c n s))
           = (stopped s \<or> error \<noteq> Success \<or> n \<le> c)"
proof -
  from log_to_unrouted [OF assms, of lr]
  show d: "is_defined (check_connection_count lr error c n s)"
    unfolding check_as_and_then by (simp add: raise_flag_def)
  with check_stopped [of lr error c n s]
  show "stopped (reached (check_connection_count lr error c n s))
           = (stopped s \<or> error \<noteq> Success \<or> n \<le> c)" by auto
qed

text \<open>
  Claim C3, on the code. After \<^verbatim>\<open>bind_logging\<close> with an error-log path, a failed count
  does not set the Stop Flag: the warning is written through the destroyed stream first,
  which is undefined behaviour. The same holds with a debug-log path for a count that
  reaches the target. With no log path the flag is set on an error and on a count of at
  least the target, and not below it.
\<close>

theorem check_connection_count_dead_stream:
  "check_connection_count level_names (Failure ''timeout'') 0 10
       (bind_logging [] ''error.log'' initial)
     = Undefined Dead_stream (bind_logging [] ''error.log'' initial)
   \<and> \<not> stopped (bind_logging [] ''error.log'' initial)
   \<and> check_connection_count level_names Success 10 10
       (bind_logging ''debug.log'' [] initial)
     = Undefined Dead_stream (bind_logging ''debug.log'' [] initial)
   \<and> \<not> stopped (bind_logging ''debug.log'' [] initial)
   \<and> is_defined (check_connection_count level_names (Failure ''timeout'') 0 10 initial)
   \<and> stopped (reached (check_connection_count level_names (Failure ''timeout'') 0 10 initial))
   \<and> stopped (reached (check_connection_count level_names Success 10 10 initial))
   \<and> \<not> stopped (reached (check_connection_count level_names Success 9 10 initial))"
  by (simp add: model_defs decimal.simps)

section \<open>The completion of a send\<close>

lemma handle_send_unrouted:
  assumes "warning_output s = None"
  shows "is_defined (handle_send lr error now s)"
    and "reached (handle_send lr error now s) =
           s\<lparr>logged := logged (reached (handle_send lr error now s)),
             cout := cout (reached (handle_send lr error now s))\<rparr>"
proof -
  from assms have "output_of Level_warning s = None" by simp
  note u = log_to_unrouted [OF this, of lr]
  show "is_defined (handle_send lr error now s)"
    by (cases error) (simp_all add: u)
  show "reached (handle_send lr error now s) =
           s\<lparr>logged := logged (reached (handle_send lr error now s)),
             cout := cout (reached (handle_send lr error now s))\<rparr>"
    by (cases error) (simp_all add: u print_line_def)
qed

text \<open>
  Claim C8, on the code. After \<^verbatim>\<open>bind_logging\<close> with an error-log path, the completion
  of a failed send writes its warning through the destroyed stream: undefined behaviour,
  and the run of \<^verbatim>\<open>invoke\<close> ends there, before any \<^verbatim>\<open>stop\<close>. The same run with no log
  path goes on and returns.
\<close>

theorem failed_send_dead_stream:
  "handle_send level_names (Failure ''timeout'') 3 (bind_logging [] ''error.log'' initial)
     = Undefined Dead_stream (bind_logging [] ''error.log'' initial)
   \<and> (case invoke level_names
        \<lparr>logging_debug_setting = [], logging_error_setting = ''error.log'',
          transactions_argument = [''tx''], nodes_option = 8\<rparr>
        \<lparr>starting = [], rounds = [[Channel_ready Success 7, Sent (Failure ''timeout'') 3],
           [Signal 2]]\<rparr> initial of
      Undefined_behaviour f s \<Rightarrow> f = Dead_stream \<and> \<not> stopped s \<and> Stop \<notin> set (trace s)
    | _ \<Rightarrow> False)
   \<and> (case invoke level_names
        \<lparr>logging_debug_setting = [], logging_error_setting = [],
          transactions_argument = [''tx''], nodes_option = 8\<rparr>
        \<lparr>starting = [], rounds = [[Channel_ready Success 7, Sent (Failure ''timeout'') 3],
           [Signal 2]]\<rparr> initial of
      Returned r s \<Rightarrow> r = Console_okay \<and> last (trace s) = Stop
    | _ \<Rightarrow> False)"
  by (simp add: model_defs)

section \<open>The Stop Flag\<close>






section \<open>No validation\<close>





section \<open>The return of invoke\<close>

lemma deliver_Stop_done:
  "deliver lr (Stop_done error) s =
     Defined (s\<lparr>pending := pending (reached (deliver lr (Stop_done error) s)),
                heap := heap (reached (deliver lr (Stop_done error) s))\<rparr>)"
  by (simp add: destroy_def split: option.split)

text \<open>Every return of \<^verbatim>\<open>invoke\<close> is the success status, after \<^verbatim>\<open>stop\<close>, with the flag true.\<close>

lemma invoke_Returned:
  assumes "invoke lr cfg env s = Returned r s'"
  shows "r = Console_okay \<and> stopped s' \<and> last (trace s') = Stop
         \<and> snd (last (pending s')) = Ignore_stop"
proof (cases "transactions_argument cfg")
  case Nil
  with assms show ?thesis by (simp add: invoke_def)
next
  case (Cons tx others)
  with assms obtain s0 s1 where
    p: "poll lr (work (nodes_option cfg)) (rounds env) s0 = Left_loop s1"
    and r: "r = Console_okay" "s' = stop Ignore_stop s1"
    by (auto simp: invoke_def split: result.splits polled.splits)
  from poll_Left_stopped [OF p] r show ?thesis
    by (simp add: stop_def request_def)
qed

text \<open>
  In a run that is defined as far as a check of the loop that finds the flag true,
  \<^verbatim>\<open>invoke\<close> returns.
\<close>

lemma invoke_returns:
  assumes "transactions_argument cfg = tx # others"
    and "invoke_begin lr tx cfg env s = Defined s0"
    and "rounds env = before @ after"
    and "cycles lr (work (nodes_option cfg)) before s0 = Defined s1"
    and "stopped s1"
  shows "\<exists>s'. invoke lr cfg env s = Returned Console_okay s'"
proof -
  from poll_returns [OF assms(4,5), of after] assms(3) obtain s2 where
    "poll lr (work (nodes_option cfg)) (rounds env) s0 = Left_loop s2" by auto
  with assms(1,2) show ?thesis by (simp add: invoke_def)
qed

text \<open>
  One run for each way the flag is raised, with no log file: the target reached, a signal,
  a failed count, a failed start, a failed channel set-up. Each returns the same status
  after \<^verbatim>\<open>stop\<close>.
\<close>

lemma invoke_okay_for_each_cause:
  "list_all
     (\<lambda>ev. case invoke level_names \<lparr>logging_debug_setting = [], logging_error_setting = [],
                  transactions_argument = [''tx''], nodes_option = 2\<rparr>
                \<lparr>starting = [], rounds = [[ev]]\<rparr> initial of
             Returned r s \<Rightarrow> r = Console_okay \<and> stopped s \<and> last (trace s) = Stop
           | _ \<Rightarrow> False)
     [Counted Success 2, Signal 2, Counted (Failure ''timeout'') 0,
      Started (Failure ''no seeds''), Channel_ready (Failure ''handshake'') 1]"
  by (simp add: model_defs decimal.simps)

text \<open>
  Claim C7, on the code. With an error-log path, a signal raises the Stop Flag and a
  failed count in the same cycle then writes its warning through a destroyed stream; with
  no log path, a signal raises the flag and the second of two channels then reads a
  destroyed transaction; with a debug-log path the first debug message of a handler is
  written through a destroyed stream. Each of these runs of \<^verbatim>\<open>invoke\<close> ends in
  undefined behaviour without calling \<^verbatim>\<open>stop\<close>, the first two with the flag true,
  where the first run with no log path returns the success status after \<^verbatim>\<open>stop\<close>.
\<close>

theorem invoke_ends_undefined:
  "(case invoke level_names
        \<lparr>logging_debug_setting = [], logging_error_setting = ''error.log'',
          transactions_argument = [''tx''], nodes_option = 2\<rparr>
        \<lparr>starting = [], rounds = [[Signal 2, Counted (Failure ''timeout'') 0]]\<rparr> initial of
      Undefined_behaviour f s \<Rightarrow> f = Dead_stream \<and> stopped s \<and> Stop \<notin> set (trace s)
    | _ \<Rightarrow> False)
   \<and> (case invoke level_names
        \<lparr>logging_debug_setting = [], logging_error_setting = [],
          transactions_argument = [''tx''], nodes_option = 2\<rparr>
        \<lparr>starting = [], rounds = [[Signal 2, Channel_ready Success 7,
           Channel_ready Success 9]]\<rparr> initial of
      Undefined_behaviour f s \<Rightarrow> f = Dead_transaction \<and> stopped s \<and> Stop \<notin> set (trace s)
    | _ \<Rightarrow> False)
   \<and> (case invoke level_names
        \<lparr>logging_debug_setting = ''debug.log'', logging_error_setting = [],
          transactions_argument = [''tx''], nodes_option = 2\<rparr>
        \<lparr>starting = [], rounds = [[Started Success], [Counted Success 2]]\<rparr> initial of
      Undefined_behaviour f s \<Rightarrow> f = Dead_stream \<and> \<not> stopped s \<and> Stop \<notin> set (trace s)
    | _ \<Rightarrow> False)
   \<and> (case invoke level_names
        \<lparr>logging_debug_setting = [], logging_error_setting = [],
          transactions_argument = [''tx''], nodes_option = 2\<rparr>
        \<lparr>starting = [], rounds = [[Signal 2, Counted (Failure ''timeout'') 0]]\<rparr> initial of
      Returned r s \<Rightarrow> r = Console_okay \<and> stopped s \<and> last (trace s) = Stop
    | _ \<Rightarrow> False)"
  by (simp add: model_defs decimal.simps)

section \<open>The error log\<close>

lemma cerr_and_file_keeps_contents:
  "stream_contents a (reached (call_output level_repr (To_cerr_and_file a) level domain body s))
     = stream_contents a s"
  by (auto simp: output_cerr_and_file_def put_contents_def stream_contents_def Let_def
      split: option.split object.split)

text \<open>
  Claim C10, on the code. With an error-log path and no debug-log path, the error file is
  created empty; an error or fatal message reaches \<^verbatim>\<open>std::cerr\<close> and the error file
  stays empty, where the claim has it in both; and a warning is written through the
  stream that \<^verbatim>\<open>bind_logging\<close> has already destroyed, which is undefined behaviour.
\<close>

theorem error_messages_miss_the_file:
  "files (bind_logging [] ''error.log'' initial) ''error.log'' = Some []
   \<and> is_defined (write_log level_repr Level_error ''net'' ''boom''
        (bind_logging [] ''error.log'' initial))
   \<and> files (reached (write_log level_repr Level_error ''net'' ''boom''
            (bind_logging [] ''error.log'' initial))) ''error.log'' = Some []
   \<and> cerr (reached (write_log level_repr Level_error ''net'' ''boom''
            (bind_logging [] ''error.log'' initial)))
       = level_repr Level_error @ '' [net]: boom'' @ endl
   \<and> files (reached (write_log level_repr Level_fatal ''net'' ''boom''
            (bind_logging [] ''error.log'' initial))) ''error.log'' = Some []
   \<and> write_log level_repr Level_warning ''net'' ''boom'' (bind_logging [] ''error.log'' initial)
       = Undefined Dead_stream (bind_logging [] ''error.log'' initial)"
  by (simp add: write_log_def bind_logging_def open_stream_def destroy_def initial_def
      output_cerr_and_file_def put_contents_def stream_contents_def Let_def)

end
